theory Spec2Isabelle
  imports Complex_Main
begin

section \<open>JavaScript values used by BuildView.tsx\<close>

text \<open>
  Strings are character lists. A string is truthy when it is not empty. The build
  progress is a real number. The source computes with doubles; the two agree on the
  integers, and the component itself only ever reports \<open>0\<close>, \<open>100\<close> and a closed-over
  progress plus \<open>100 / 5 / 10 = 2\<close>. What is proved about the values of the progress is
  stated for integer progress between \<open>0\<close> and \<open>100\<close>, where real and double arithmetic
  give the same results. Clock readings (\<open>Date.now()\<close>, \<open>new Date()\<close>) are a parameter
  \<open>now\<close> of every function that reads the clock.
\<close>

definition digit_char :: "nat \<Rightarrow> char" where
  "digit_char d = ''0123456789'' ! d"

fun show_nat :: "nat \<Rightarrow> string" where
  "show_nat n = (if n < 10 then [digit_char n] else show_nat (n div 10) @ [digit_char (n mod 10)])"

declare show_nat.simps [simp del]

text \<open>\<open>a || b\<close> on strings.\<close>

definition or_else :: "string \<Rightarrow> string \<Rightarrow> string" where
  "or_else a b = (if a \<noteq> [] then a else b)"

text \<open>\<open>String.prototype.includes\<close>.\<close>

fun startsWith :: "string \<Rightarrow> string \<Rightarrow> bool" where
  "startsWith s [] = True"
| "startsWith [] (p # ps) = False"
| "startsWith (c # cs) (p # ps) = (c = p \<and> startsWith cs ps)"

fun includes_str :: "string \<Rightarrow> string \<Rightarrow> bool" where
  "includes_str [] sub = (sub = [])"
| "includes_str (c # cs) sub = (startsWith (c # cs) sub \<or> includes_str cs sub)"

text \<open>\<open>Array.prototype.join\<close>.\<close>

fun join :: "string \<Rightarrow> string list \<Rightarrow> string" where
  "join sep [] = []"
| "join sep [x] = x"
| "join sep (x # y # ys) = x @ sep @ join sep (y # ys)"

definition newline :: string where
  "newline = [CHR 0x0A]"

section \<open>Data model (interfaces of BuildView.tsx, lines 23-67)\<close>

record Prerequisites =
  oauth :: "string list option"
  files :: "string list option"
  database_credentials :: "bool option"
  pinecone_index_name :: "string option"

text \<open>
  \<open>BuildSession.agent_config\<close> is typed \<open>any\<close>; the \<open>COMPLETED\<close> case reads an \<open>id\<close>
  from it, which the interface \<open>AgentConfiguration\<close> does not declare. It is the field
  \<open>config_id\<close> here.
\<close>

record AgentConfiguration =
  agent_name :: string
  llm_model :: string
  system_prompt :: string
  tools_to_activate :: "string list"
  prerequisites :: Prerequisites
  config_id :: "nat option"

datatype role = User | Agent

record ChatMessage =
  msg_id :: string
  msg_type :: role
  content :: string
  timestamp :: nat

record HistoryEntry =
  message_to_user :: "string option"

record UiRequest =
  ui_type :: string

record BuildSession =
  build_id :: string
  state :: string
  original_prompt :: string
  agent_config :: "AgentConfiguration option"
  history :: "HistoryEntry list"
  ui_request :: "UiRequest option"

record ConnectionConfig =
  hostname :: string
  username :: string
  password :: string
  database :: string
  port :: string

record NodeData =
  label :: string
  icon :: string
  data_type :: string
  isLoading :: bool

record Node =
  node_id :: string
  node_type :: string
  position :: "nat \<times> nat"
  node_data :: NodeData

record EdgeStyle =
  stroke :: string
  strokeWidth :: nat

record Edge =
  edge_id :: string
  source :: string
  target :: string
  edge_type :: string
  style :: EdgeStyle

text \<open>The body of \<open>POST /agents\<close> (\<open>agentData\<close>, lines 477-487 and 1462-1472).\<close>

record AgentData =
  user_email :: string
  data_name :: string
  data_system_prompt :: string
  cfg_tools_to_activate :: "string list"
  cfg_prerequisites :: Prerequisites
  cfg_llm_model :: string
  cfg_pinecone_index_name :: "string option"

text \<open>
  What a \<open>fetch\<close> followed by \<open>response.json()\<close> can give: the fetch rejects (a network
  error, with its message), the response is not ok (its body is the parse error's
  message or the \<open>detail\<close> of the error data), or the response is ok (its body is the parse
  error's message or the parsed value).
\<close>

datatype 'a fetch_result =
    Rejected string
  | NotOk "string + string option"
  | Ok "string + 'a"

text \<open>Everything the component does to the world outside its own state.\<close>

datatype effect =
    PostBuilds string
  | PostContinueMessage string string
  | PostContinueConnection string string
  | PostUploadFile string
  | PostArchitect string
  | PostAgents AgentData
  | OnProgressUpdate real
  | OnBuildComplete
  | Alert string

datatype error = TypeError

text \<open>The props the parent passes in (lines 36-45); the two callbacks are effects.\<close>

record BuildViewProps =
  userPrompt :: string
  isBuilding :: bool
  buildProgress :: real
  isAgentReady :: bool
  templateMatch :: bool

text \<open>
  The component's state (the \<open>useState\<close> cells of lines 140-177 that the modelled
  functions read or write), and the interval timers of the progress effect: every
  running interval with the \<open>buildProgress\<close> its callback closed over, the next fresh
  interval handle, and the interval that the effect's pending cleanup will clear.
\<close>

record BuildView =
  buildSession :: "BuildSession option"
  chatMessages :: "ChatMessage list"
  newMessage :: string
  showThinking :: bool
  showProjectPlan :: bool
  projectApproved :: bool
  showArchitecture :: bool
  showConnectionModal :: bool
  connectionConfig :: ConnectionConfig
  currentTypingIndex :: nat
  projectPlanText :: string
  waitingForClarification :: bool
  clarificationQuestions :: "string list"
  currentQuestionIndex :: nat
  agentConfig :: "AgentConfiguration option"
  savedAgentId :: "nat option"
  nodes :: "Node list"
  edges :: "Edge list"
  intervals :: "(nat \<times> real) list"
  nextInterval :: nat
  progressCleanup :: "nat option"

definition initialView :: BuildView where
  "initialView = \<lparr>
     buildSession = None, chatMessages = [], newMessage = [], showThinking = True,
     showProjectPlan = False, projectApproved = False, showArchitecture = False,
     showConnectionModal = False,
     connectionConfig = \<lparr>hostname = [], username = [], password = [], database = [],
                          port = ''5432''\<rparr>,
     currentTypingIndex = 0, projectPlanText = [], waitingForClarification = False,
     clarificationQuestions = [], currentQuestionIndex = 0, agentConfig = None,
     savedAgentId = None, nodes = [], edges = [], intervals = [], nextInterval = 0,
     progressCleanup = None\<rparr>"

section \<open>Persisting the configuration (saveAgentConfig, lines 1460-1490)\<close>

definition agentData :: "AgentConfiguration \<Rightarrow> AgentData" where
  "agentData config = \<lparr>
     user_email = ''fahadpatel5700@gmail.com'',
     data_name = or_else (agent_name config) ''New Agent'',
     data_system_prompt = or_else (system_prompt config) ''You are a helpful assistant.'',
     cfg_tools_to_activate = tools_to_activate config,
     cfg_prerequisites = prerequisites config,
     cfg_llm_model = or_else (llm_model config) ''gpt-4o'',
     cfg_pinecone_index_name =
       (case pinecone_index_name (prerequisites config) of
          None \<Rightarrow> None
        | Some n \<Rightarrow> if n \<noteq> [] then Some n else None)\<rparr>"

text \<open>
  With a null configuration, reading \<open>config.agent_name\<close> throws inside the \<open>try\<close>: the
  error is caught and no request is sent. Otherwise the request is sent, and the saved
  id is stored only when the response is ok and parses.
\<close>

definition saveAgentConfig ::
    "AgentConfiguration option \<Rightarrow> nat option fetch_result \<Rightarrow> BuildView \<Rightarrow> BuildView \<times> effect list" where
  "saveAgentConfig config saveResponse st =
     (case config of
        None \<Rightarrow> (st, [])
      | Some c \<Rightarrow>
          (case saveResponse of
             Ok (Inr saved) \<Rightarrow> (st\<lparr>savedAgentId := saved\<rparr>, [PostAgents (agentData c)])
           | _ \<Rightarrow> (st, [PostAgents (agentData c)])))"

section \<open>Reacting to a new snapshot (useEffect on buildSession, lines 264-337)\<close>

definition lastMessage :: "BuildSession \<Rightarrow> string option" where
  "lastMessage s = (case history s of [] \<Rightarrow> None | _ \<Rightarrow> message_to_user (last (history s)))"

text \<open>The updater passed to \<open>setChatMessages\<close> (lines 272-283).\<close>

definition appendLatest :: "nat \<Rightarrow> string \<Rightarrow> ChatMessage list \<Rightarrow> ChatMessage list" where
  "appendLatest now lastMsg prev =
     (if (case prev of [] \<Rightarrow> True | _ \<Rightarrow> content (last prev) \<noteq> lastMsg)
      then prev @ [\<lparr>msg_id = ''agent-'' @ show_nat now, msg_type = Agent, content = lastMsg,
                    timestamp = now\<rparr>]
      else prev)"

definition updateChat :: "nat \<Rightarrow> BuildSession \<Rightarrow> BuildView \<Rightarrow> BuildView" where
  "updateChat now s st =
     (case lastMessage s of
        None \<Rightarrow> st
      | Some m \<Rightarrow> if m \<noteq> [] then st\<lparr>chatMessages := appendLatest now m (chatMessages st)\<rparr> else st)"

definition handleUiRequest :: "BuildSession \<Rightarrow> BuildView \<Rightarrow> BuildView" where
  "handleUiRequest s st =
     (case ui_request s of
        None \<Rightarrow> st
      | Some u \<Rightarrow>
          if ui_type u = ''REQUEST_DB_CREDENTIALS'' then st\<lparr>showConnectionModal := True\<rparr> else st)"

text \<open>
  The \<open>switch\<close> on the state. An unknown state falls through. In the \<open>COMPLETED\<close> case a
  null \<open>agent_config\<close> makes \<open>buildSession.agent_config.id\<close> throw out of the effect.
\<close>

definition dispatchState ::
    "nat option fetch_result \<Rightarrow> BuildSession \<Rightarrow> BuildView \<Rightarrow> error + BuildView \<times> effect list" where
  "dispatchState saveResponse s st =
     (if state s = ''WAITING_FOR_USER_INPUT'' then Inr (st\<lparr>showThinking := False\<rparr>, [])
      else if state s = ''CONFIGURATION_PROPOSED'' then Inr (st\<lparr>showThinking := False\<rparr>, [])
      else if state s = ''CONFIGURATION_FINALIZED'' then
        (case saveAgentConfig (agent_config s) saveResponse
                (st\<lparr>showThinking := False, agentConfig := agent_config s,
                    showArchitecture := True\<rparr>) of
           (st', effs) \<Rightarrow> Inr (st', effs @ [OnProgressUpdate 0]))
      else if state s = ''FAILED'' then Inr (st\<lparr>showThinking := False\<rparr>, [])
      else if state s = ''REQUEST_DB_CREDENTIALS'' then Inr (st\<lparr>showConnectionModal := True\<rparr>, [])
      else if state s = ''COMPLETED'' then
        (case agent_config s of
           None \<Rightarrow> Inl TypeError
         | Some c \<Rightarrow>
             Inr (st\<lparr>showConnectionModal := False, agentConfig := Some c,
                     savedAgentId := config_id c, showArchitecture := True\<rparr>,
                  [OnProgressUpdate 0]))
      else if state s = ''DB_CONNECTION_FAILED'' then
        Inr (st\<lparr>showConnectionModal := True\<rparr>,
             [Alert ''Database connection failed. Please check your credentials and try again.''])
      else Inr (st, []))"

definition buildSessionEffect ::
    "nat \<Rightarrow> nat option fetch_result \<Rightarrow> BuildView \<Rightarrow> error + BuildView \<times> effect list" where
  "buildSessionEffect now saveResponse st =
     (case buildSession st of
        None \<Rightarrow> Inr (st, [])
      | Some s \<Rightarrow> dispatchState saveResponse s (handleUiRequest s (updateChat now s st)))"

text \<open>
  A snapshot replacement: \<open>setBuildSession\<close> with a freshly parsed session, and the effect
  that the new object triggers.
\<close>

definition replaceSnapshot ::
    "nat \<Rightarrow> nat option fetch_result \<Rightarrow> BuildSession \<Rightarrow> BuildView \<Rightarrow> error + BuildView \<times> effect list" where
  "replaceSnapshot now saveResponse s st =
     buildSessionEffect now saveResponse (st\<lparr>buildSession := Some s\<rparr>)"

section \<open>Observations, runs and example values\<close>

text \<open>Observations of the outcome of an effect.\<close>

definition chatAfter :: "error + BuildView \<times> effect list \<Rightarrow> ChatMessage list option" where
  "chatAfter r = (case r of Inl e \<Rightarrow> None | Inr (st, effs) \<Rightarrow> Some (chatMessages st))"

definition effectsOf :: "error + BuildView \<times> effect list \<Rightarrow> effect list" where
  "effectsOf r = (case r of Inl e \<Rightarrow> [] | Inr (st, effs) \<Rightarrow> effs)"

fun isPostAgents :: "effect \<Rightarrow> bool" where
  "isPostAgents (PostAgents d) = True"
| "isPostAgents e = False"

text \<open>
  A sequence of snapshot replacements, each with its clock reading and the answer the
  Agent Store would give to a save. A throw out of the effect ends the run.
\<close>

fun replaceSnapshots ::
    "(nat \<times> nat option fetch_result \<times> BuildSession) list \<Rightarrow> BuildView \<Rightarrow>
     error option \<times> BuildView \<times> effect list" where
  "replaceSnapshots [] st = (None, st, [])"
| "replaceSnapshots ((now, saveResponse, s) # rest) st =
     (case replaceSnapshot now saveResponse s st of
        Inl e \<Rightarrow> (Some e, st, [])
      | Inr (st', effs) \<Rightarrow>
          (case replaceSnapshots rest st' of (e, st'', effs') \<Rightarrow> (e, st'', effs @ effs')))"

definition finalizedWithConfig :: "nat \<times> nat option fetch_result \<times> BuildSession \<Rightarrow> bool" where
  "finalizedWithConfig ev =
     (case ev of (now, saveResponse, s) \<Rightarrow>
        state s = ''CONFIGURATION_FINALIZED'' \<and> agent_config s \<noteq> None)"

text \<open>Example values.\<close>

definition noPrerequisites :: Prerequisites where
  "noPrerequisites = \<lparr>oauth = None, files = None, database_credentials = None,
                       pinecone_index_name = None\<rparr>"

definition mailConfig :: AgentConfiguration where
  "mailConfig = \<lparr>agent_name = ''Mail helper'', llm_model = ''gpt-4o'',
                  system_prompt = ''You triage mail.'', tools_to_activate = [],
                  prerequisites = noPrerequisites\<lparr>oauth := Some [''google'', ''jira'']\<rparr>,
                  config_id = None\<rparr>"

definition dbConfig :: AgentConfiguration where
  "dbConfig = \<lparr>agent_name = ''Sales analyst'', llm_model = ''gpt-4o'',
                system_prompt = ''You answer questions about sales.'',
                tools_to_activate = [''supabase_query''],
                prerequisites = noPrerequisites\<lparr>database_credentials := Some True\<rparr>,
                config_id = None\<rparr>"

definition session :: "string \<Rightarrow> AgentConfiguration option \<Rightarrow> string option \<Rightarrow> BuildSession" where
  "session st cfg msg = \<lparr>build_id = ''b1'', state = st, original_prompt = ''Sort my mail'',
                          agent_config = cfg, history = [\<lparr>message_to_user = msg\<rparr>],
                          ui_request = None\<rparr>"

definition greeted :: BuildView where
  "greeted = initialView\<lparr>
     buildSession := Some (session ''WAITING_FOR_USER_INPUT'' None (Some ''Which mailbox?'')),
     chatMessages := [\<lparr>msg_id = ''agent-1'', msg_type = Agent, content = ''Which mailbox?'',
                       timestamp = 1\<rparr>],
     showThinking := False\<rparr>"

definition userSaidHi :: BuildView where
  "userSaidHi = initialView\<lparr>
     chatMessages := [\<lparr>msg_id = ''user-1'', msg_type = User, content = ''hi'',
                       timestamp = 1\<rparr>]\<rparr>"

section \<open>Session transport (lines 227-248, 630-668, 1174-1216, 1955-1975)\<close>

text \<open>
  \<open>String.prototype.trim\<close>. A character of the model is a code unit below 256; the white
  space of ECMAScript in that range is the tab, the line feed, the vertical tab, the form
  feed, the carriage return, the space and the no-break space. The white space above
  U+00FF cannot occur in a string of the model.
\<close>

definition is_space :: "char \<Rightarrow> bool" where
  "is_space c = (c \<in> set [CHR '' '', CHR 0x09, CHR 0x0A, CHR 0x0B, CHR 0x0C, CHR 0x0D,
                           CHR 0xA0])"

definition trim :: "string \<Rightarrow> string" where
  "trim s = rev (dropWhile is_space (rev (dropWhile is_space s)))"

text \<open>
  Each handler takes the outcome of its request as a parameter. The handlers only store
  the new snapshot; the effect on \<open>buildSession\<close> runs afterwards, when the stored object
  has changed.
\<close>

definition startBuild ::
    "BuildSession fetch_result \<Rightarrow> BuildViewProps \<Rightarrow> BuildView \<Rightarrow> BuildView \<times> effect list" where
  "startBuild response props st =
     (if userPrompt props = [] \<or> buildSession st \<noteq> None then (st, [])
      else
        (case response of
           Ok (Inr s) \<Rightarrow> (st\<lparr>buildSession := Some s\<rparr>, [PostBuilds (userPrompt props)])
         | _ \<Rightarrow> (st, [PostBuilds (userPrompt props)])))"

definition handleSendMessage ::
    "nat \<Rightarrow> BuildSession fetch_result \<Rightarrow> BuildView \<Rightarrow> BuildView \<times> effect list" where
  "handleSendMessage now response st =
     (case buildSession st of
        None \<Rightarrow> (st, [])
      | Some s \<Rightarrow>
          if trim (newMessage st) = [] then (st, [])
          else
            (let userMessageContent = trim (newMessage st);
                 st1 = st\<lparr>chatMessages := chatMessages st @
                             [\<lparr>msg_id = ''user-'' @ show_nat now, msg_type = User,
                               content = userMessageContent, timestamp = now\<rparr>],
                          newMessage := [], showThinking := True\<rparr>
             in (case response of
                   Ok (Inr updatedSession) \<Rightarrow>
                     (st1\<lparr>buildSession := Some updatedSession\<rparr>,
                      [PostContinueMessage (build_id s) userMessageContent])
                 | _ \<Rightarrow> (st1, [PostContinueMessage (build_id s) userMessageContent]))))"

definition connString :: "ConnectionConfig \<Rightarrow> string" where
  "connString c = ''postgresql://'' @ username c @ '':'' @ password c @ ''@'' @ hostname c
                  @ '':'' @ port c @ ''/'' @ database c"

definition handleConnectionSubmit ::
    "BuildSession fetch_result \<Rightarrow> BuildView \<Rightarrow> BuildView \<times> effect list" where
  "handleConnectionSubmit response st =
     (case buildSession st of
        None \<Rightarrow> (st, [Alert ''Error: Build session not found.''])
      | Some s \<Rightarrow>
          (let request = PostContinueConnection (build_id s) (connString (connectionConfig st))
           in (case response of
                 Ok (Inr updatedSession) \<Rightarrow> (st\<lparr>buildSession := Some updatedSession\<rparr>, [request])
               | Ok (Inl message) \<Rightarrow> (st, [request, Alert (''An error occurred: '' @ message)])
               | NotOk (Inl message) \<Rightarrow> (st, [request, Alert (''An error occurred: '' @ message)])
               | NotOk (Inr detail) \<Rightarrow>
                   (st, [request,
                         Alert (''An error occurred: '' @
                                or_else (case detail of None \<Rightarrow> [] | Some d \<Rightarrow> d)
                                        ''Failed to continue build process.'')])
               | Rejected message \<Rightarrow>
                   (st, [request, Alert (''An error occurred: '' @ message)]))))"

text \<open>The \<open>onUpload\<close> handler of the file upload modal; the file itself is not modelled.\<close>

definition onUpload :: "BuildSession fetch_result \<Rightarrow> BuildView \<Rightarrow> BuildView \<times> effect list" where
  "onUpload response st =
     (case buildSession st of
        None \<Rightarrow> (st, [])
      | Some s \<Rightarrow>
          (case response of
             Ok (Inr updatedSession) \<Rightarrow>
               (st\<lparr>buildSession := Some updatedSession\<rparr>, [PostUploadFile (build_id s)])
           | _ \<Rightarrow> (st, [PostUploadFile (build_id s)])))"

text \<open>A request that did not deliver a parsed snapshot: the fetch rejected, the status
  was not 2xx, or the body did not parse.\<close>

fun transportFailure :: "'a fetch_result \<Rightarrow> bool" where
  "transportFailure (Ok (Inr v)) = False"
| "transportFailure r = True"

section \<open>The architecture graph (lines 1374-1452 and 525-558)\<close>

text \<open>One node literal of \<open>generateGenericArchitecture\<close>: the id is also the type and
  names the icon.\<close>

definition node :: "string \<Rightarrow> string \<Rightarrow> nat \<times> nat \<Rightarrow> Node" where
  "node i l pos = \<lparr>node_id = i, node_type = ''custom'', position = pos,
                    node_data = \<lparr>label = l, icon = ''/images/'' @ i @ ''-icon.png'',
                                  data_type = i, isLoading = True\<rparr>\<rparr>"

text \<open>The node list that \<open>generateGenericArchitecture\<close> passes to \<open>setNodes\<close>.\<close>

definition generateGenericArchitecture :: "string list \<Rightarrow> Node list" where
  "generateGenericArchitecture requiredConnections =
     (let n0 = [node ''openai'' ''OpenAI'' (20, 20)];
          x0 = 20 + 100;
          n1 = (if ''google'' \<in> set requiredConnections
                then n0 @ [node ''google'' ''Google'' (x0, 20)] else n0);
          x1 = (if ''google'' \<in> set requiredConnections then x0 + 100 else x0);
          n2 = (if ''jira'' \<in> set requiredConnections
                then n1 @ [node ''jira'' ''Jira'' (x1, 20)] else n1);
          x2 = (if ''jira'' \<in> set requiredConnections then x1 + 100 else x1);
          n3 = (if ''slack'' \<in> set requiredConnections
                then n2 @ [node ''slack'' ''Slack'' (x2, 20)] else n2)
      in n3 @ [node ''memory'' ''Memory'' (70, 80)])"

definition edgeTo :: "string \<Rightarrow> string \<Rightarrow> Edge" where
  "edgeTo t nodeId = \<lparr>edge_id = nodeId @ ''-'' @ t, source = nodeId, target = t,
                       edge_type = ''custom'',
                       style = \<lparr>stroke = ''#6B7280'', strokeWidth = 3\<rparr>\<rparr>"

text \<open>The two \<open>forEach\<close> loops over \<open>nodeIds\<close>.\<close>

definition newEdges :: "string list \<Rightarrow> Edge list" where
  "newEdges nodeIds =
     map (edgeTo ''openai'') (filter (\<lambda>nodeId. nodeId \<noteq> ''openai'') nodeIds) @
     map (edgeTo ''memory'') (filter (\<lambda>nodeId. nodeId \<noteq> ''memory'') nodeIds)"

section \<open>Approving the project plan (handleProjectApproval, lines 432-562)\<close>

definition canApprove :: "BuildView \<Rightarrow> bool" where
  "canApprove st = (showProjectPlan st \<and> currentTypingIndex st = length (projectPlanText st))"

text \<open>
  The tail of the handler, after the \<open>try\<close>: the loading flags of the current nodes are
  cleared by a functional update, and the edges are built from \<open>nodes\<close>, the node list of
  the render in which the handler was created (\<open>closureNodes\<close>), not from the list just
  passed to \<open>setNodes\<close>.
\<close>

definition connectNodes :: "Node list \<Rightarrow> BuildView \<Rightarrow> BuildView" where
  "connectNodes closureNodes st =
     st\<lparr>nodes := map (\<lambda>n. n\<lparr>node_data := (node_data n)\<lparr>isLoading := False\<rparr>\<rparr>) (nodes st),
        edges := newEdges (map node_id closureNodes)\<rparr>"

definition handleProjectApproval ::
    "nat \<Rightarrow> AgentConfiguration fetch_result \<Rightarrow> nat option fetch_result \<Rightarrow> BuildViewProps \<Rightarrow>
     BuildView \<Rightarrow> BuildView \<times> effect list" where
  "handleProjectApproval now archResponse saveResponse props st =
     (if \<not> canApprove st then (st, [])
      else
        (let st1 = st\<lparr>projectApproved := True, showProjectPlan := False,
                      showArchitecture := True,
                      chatMessages := chatMessages st @
                        [\<lparr>msg_id = ''approve-'' @ show_nat now, msg_type = User,
                          content = ''Yes, please proceed with the build!'', timestamp = now\<rparr>]\<rparr>;
             architect = PostArchitect (userPrompt props)
         in (case archResponse of
               Ok (Inr config) \<Rightarrow>
                 (let st2 = st1\<lparr>agentConfig := Some config\<rparr>
                  in if database_credentials (prerequisites config) = Some True
                     then (st2\<lparr>showConnectionModal := True\<rparr>, [architect])
                     else
                       (case saveResponse of
                          Ok (Inr savedId) \<Rightarrow>
                            (let st3 = st2\<lparr>savedAgentId := savedId, showArchitecture := True\<rparr>;
                                 st4 = (if templateMatch props then st3
                                        else st3\<lparr>nodes := generateGenericArchitecture
                                                 (case oauth (prerequisites config) of
                                                    None \<Rightarrow> [] | Some cs \<Rightarrow> cs)\<rparr>)
                             in (connectNodes (nodes st) st4,
                                 [architect, PostAgents (agentData config), OnProgressUpdate 0]))
                        | _ \<Rightarrow> (st2, [architect, PostAgents (agentData config)])))
             | _ \<Rightarrow> (connectNodes (nodes st) st1, [architect]))))"

text \<open>Example values: the plan is shown and fully typed; the same approval, made twice.\<close>

definition planShown :: BuildView where
  "planShown = initialView\<lparr>showProjectPlan := True\<rparr>"

definition quietProps :: BuildViewProps where
  "quietProps = \<lparr>userPrompt = ''Sort my mail'', isBuilding = False, buildProgress = 0,
                  isAgentReady = False, templateMatch = False\<rparr>"

definition approvedOnce :: BuildView where
  "approvedOnce =
     fst (handleProjectApproval 1 (Ok (Inr mailConfig)) (Ok (Inr (Some 7))) quietProps planShown)"

definition approvedTwice :: BuildView where
  "approvedTwice =
     fst (handleProjectApproval 2 (Ok (Inr mailConfig)) (Ok (Inr (Some 7))) quietProps
            (approvedOnce\<lparr>showProjectPlan := True\<rparr>))"


section \<open>The clarification sequencer (handleClarificationAnswer, lines 749-799)\<close>

text \<open>\<open>clarificationQuestions[currentQuestionIndex]\<close>, rendered in a template literal:
  out of range it is \<open>undefined\<close>.\<close>

definition questionAt :: "string list \<Rightarrow> nat \<Rightarrow> string" where
  "questionAt qs i = (if i < length qs then qs ! i else ''undefined'')"

definition clarificationPrompt :: "string \<Rightarrow> (string \<times> string) list \<Rightarrow> string" where
  "clarificationPrompt prompt allResponses =
     prompt @ newline @ newline @ ''User clarifications:'' @ newline @
     join newline (map (\<lambda>(q, a). q @ '': '' @ a) allResponses)"

text \<open>
  \<open>workflowAnalysisService\<close> (line 785) is neither imported nor declared in the file:
  evaluating it throws a ReferenceError inside the \<open>try\<close>, before any request is made,
  and the \<open>catch\<close> only logs it. So the last answer leaves clarification mode, resets
  the cursor and builds the prompt, and nothing more: no analysis is requested and no
  plan is stored.
\<close>

definition handleClarificationAnswer ::
    "nat \<Rightarrow> string \<Rightarrow> BuildViewProps \<Rightarrow> BuildView \<Rightarrow> BuildView \<times> effect list" where
  "handleClarificationAnswer now answer props st =
     (let currentQuestion = questionAt (clarificationQuestions st) (currentQuestionIndex st);
          st1 = st\<lparr>chatMessages := chatMessages st @
                  [\<lparr>msg_id = ''clarification-'' @ show_nat (currentQuestionIndex st),
                    msg_type = Agent,
                    content = ''To better understand your requirements, I need to know: ''
                              @ currentQuestion,
                    timestamp = now\<rparr>,
                   \<lparr>msg_id = ''answer-'' @ show_nat (currentQuestionIndex st), msg_type = User,
                    content = answer, timestamp = now\<rparr>]\<rparr>;
          responses = [(currentQuestion, answer)]
      in if currentQuestionIndex st + 1 < length (clarificationQuestions st)
         then (st1\<lparr>currentQuestionIndex := currentQuestionIndex st + 1\<rparr>, [])
         else
           (let st2 = st1\<lparr>waitingForClarification := False, currentQuestionIndex := 0\<rparr>;
                allResponses = responses;
                updatedPrompt = clarificationPrompt (userPrompt props) allResponses
            in (st2, [])))"

text \<open>Answers submitted in order, each with its clock reading.\<close>

fun answerAll ::
    "(nat \<times> string) list \<Rightarrow> BuildViewProps \<Rightarrow> BuildView \<Rightarrow> BuildView \<times> effect list" where
  "answerAll [] props st = (st, [])"
| "answerAll ((now, answer) # rest) props st =
     (case handleClarificationAnswer now answer props st of
        (st', effs) \<Rightarrow> (case answerAll rest props st' of (st'', effs') \<Rightarrow> (st'', effs @ effs')))"


section \<open>The completion announcement (lines 192-224 and 582-602)\<close>

definition generateAgentSuccessMessage :: "BuildView \<Rightarrow> string" where
  "generateAgentSuccessMessage st =
     (case agentConfig st of
        None \<Rightarrow> ''Your AI agent is ready! You can now test and deploy it.''
      | Some cfg \<Rightarrow>
          (let connections = (case oauth (prerequisites cfg) of None \<Rightarrow> [] | Some cs \<Rightarrow> cs);
               agentType =
                 (if ''gmail'' \<in> set connections \<or> ''google'' \<in> set connections
                  then ''Email Management''
                  else if ''slack'' \<in> set connections then ''Communication''
                  else if ''jira'' \<in> set connections then ''Project Management''
                  else if ''supabase_query'' \<in> set (tools_to_activate cfg) then ''Database''
                  else ''General Purpose AI'');
               capabilities =
                 (if ''gmail'' \<in> set connections \<or> ''google'' \<in> set connections
                  then [''Gmail integration'', ''email automation'']
                  else if ''slack'' \<in> set connections
                  then [''Slack integration'', ''team collaboration'']
                  else if ''jira'' \<in> set connections
                  then [''Jira integration'', ''issue tracking'']
                  else if ''supabase_query'' \<in> set (tools_to_activate cfg)
                  then [''database queries'', ''data analysis'']
                  else if length connections > 0 then connections
                  else [''intelligent conversation'']);
               capabilityText =
                 (if length capabilities > 0
                  then '' with '' @ join '', '' capabilities @ '' capabilities'' else [])
           in ''Your '' @ agentType @ '' agent is ready! You can now test it'' @ capabilityText
              @ '' and start leveraging its features.''))"

text \<open>The effect on \<open>isAgentReady\<close> and \<open>agentConfig\<close>: it runs when one of them changes.\<close>

definition completionEffect :: "nat \<Rightarrow> BuildViewProps \<Rightarrow> BuildView \<Rightarrow> BuildView" where
  "completionEffect now props st =
     (if isAgentReady props
      then st\<lparr>chatMessages :=
             (if list_ex (\<lambda>msg. includes_str (content msg) ''Agent built successfully'')
                         (chatMessages st)
              then chatMessages st
              else chatMessages st @
                     [\<lparr>msg_id = show_nat now, msg_type = Agent,
                       content = generateAgentSuccessMessage st, timestamp = now\<rparr>])\<rparr>
      else st)"

definition readyProps :: BuildViewProps where
  "readyProps = \<lparr>userPrompt = ''Sort my mail'', isBuilding = False, buildProgress = 100,
                  isAgentReady = True, templateMatch = False\<rparr>"

definition mailMessage :: string where
  "mailMessage = ''Your Email Management agent is ready! You can now test it with Gmail integration, email automation capabilities and start leveraging its features.''"

section \<open>The progress simulation (lines 184-190 and 564-580)\<close>

definition buildSteps :: "string list" where
  "buildSteps = [''Finalizing architecture...'', ''Setting up integrations...'',
                 ''Generating agent logic...'', ''Configuring workflows...'',
                 ''Finalizing deployment...'']"

definition progressIncrement :: real where
  "progressIncrement = 100 / real (length buildSteps) / 10"

definition clearInterval :: "nat \<Rightarrow> BuildView \<Rightarrow> BuildView" where
  "clearInterval i st = st\<lparr>intervals := filter (\<lambda>(j, captured). j \<noteq> i) (intervals st)\<rparr>"

text \<open>The body of the effect: \<open>setInterval\<close> when building, and the cleanup it returns.\<close>

definition progressEffect :: "BuildViewProps \<Rightarrow> BuildView \<Rightarrow> BuildView" where
  "progressEffect props st =
     (if isBuilding props
      then st\<lparr>intervals := intervals st @ [(nextInterval st, buildProgress props)],
              nextInterval := nextInterval st + 1,
              progressCleanup := Some (nextInterval st)\<rparr>
      else st\<lparr>progressCleanup := None\<rparr>)"

definition runProgressCleanup :: "BuildView \<Rightarrow> BuildView" where
  "runProgressCleanup st =
     (case progressCleanup st of
        None \<Rightarrow> st
      | Some i \<Rightarrow> (clearInterval i st)\<lparr>progressCleanup := None\<rparr>)"

text \<open>What React does when a dependency of the effect has changed: the pending cleanup
  first, then the body with the new props.\<close>

definition rerunProgressEffect :: "BuildViewProps \<Rightarrow> BuildView \<Rightarrow> BuildView" where
  "rerunProgressEffect props st = progressEffect props (runProgressCleanup st)"

text \<open>
  The callback of interval \<open>i\<close>, with the \<open>buildProgress\<close> it closed over. A cleared
  interval does not fire. The sum and the comparison are on reals; they agree with the
  doubles of line 568 when the progress closed over is an integer.
\<close>

definition intervalTick :: "nat \<Rightarrow> BuildView \<Rightarrow> BuildView \<times> effect list" where
  "intervalTick i st =
     (case map_of (intervals st) i of
        None \<Rightarrow> (st, [])
      | Some captured \<Rightarrow>
          (let newProgress = captured + progressIncrement
           in if newProgress \<ge> 100
              then (clearInterval i st, [OnBuildComplete, OnProgressUpdate 100])
              else (st, [OnProgressUpdate newProgress])))"

text \<open>
  What can happen to the timers: the effect runs again, an interval fires, a snapshot is
  replaced, the component unmounts. A throw out of the snapshot effect unmounts the
  component.
\<close>

datatype event =
    Rerun BuildViewProps
  | Tick nat
  | Replace nat "nat option fetch_result" BuildSession
  | Unmount

fun progressStep :: "event \<Rightarrow> BuildView \<Rightarrow> BuildView" where
  "progressStep (Rerun props) st = rerunProgressEffect props st"
| "progressStep (Tick i) st = fst (intervalTick i st)"
| "progressStep (Replace now r s) st =
     (case replaceSnapshot now r s st of
        Inr (st', effs) \<Rightarrow> st'
      | Inl e \<Rightarrow> runProgressCleanup st)"
| "progressStep Unmount st = runProgressCleanup st"

fun progressRun :: "event list \<Rightarrow> BuildView \<Rightarrow> BuildView" where
  "progressRun [] st = st"
| "progressRun (ev # evs) st = progressRun evs (progressStep ev st)"

text \<open>Every running interval is the one that the pending cleanup will clear.\<close>

definition timerInv :: "BuildView \<Rightarrow> bool" where
  "timerInv st =
     (case intervals st of
        [] \<Rightarrow> True
      | [(i, captured)] \<Rightarrow> progressCleanup st = Some i
      | _ \<Rightarrow> False)"

definition intervalsAfter :: "error + BuildView \<times> effect list \<Rightarrow> (nat \<times> real) list option" where
  "intervalsAfter r = (case r of Inl e \<Rightarrow> None | Inr (st, effs) \<Rightarrow> Some (intervals st))"

definition buildingProps :: BuildViewProps where
  "buildingProps = \<lparr>userPrompt = ''Sort my mail'', isBuilding = True, buildProgress = 0,
                     isAgentReady = False, templateMatch = False\<rparr>"

section \<open>The component with its parent\<close>










section \<open>Properties of the transcript\<close>

lemma appendLatest_last:
  "appendLatest now m prev \<noteq> [] \<and> content (last (appendLatest now m prev)) = m"
  by (cases prev) (auto simp: appendLatest_def)

lemma appendLatest_same:
  "ys \<noteq> [] \<Longrightarrow> content (last ys) = m \<Longrightarrow> appendLatest now m ys = ys"
  by (cases ys) (auto simp: appendLatest_def)

lemma appendLatest_idem:
  "appendLatest now' m (appendLatest now m prev) = appendLatest now m prev"
  using appendLatest_last [of now m prev] by (simp add: appendLatest_same)

lemma dispatchState_chat:
  "dispatchState r s st = Inr (st', effs) \<Longrightarrow> chatMessages st' = chatMessages st"
  by (auto simp: dispatchState_def saveAgentConfig_def
           split: if_splits option.splits fetch_result.splits sum.splits prod.splits)

lemma handleUiRequest_chat: "chatMessages (handleUiRequest s st) = chatMessages st"
  by (simp add: handleUiRequest_def split: option.splits)

lemma replaceSnapshot_chat:
  "replaceSnapshot now r s st = Inr (st', effs) \<Longrightarrow>
   chatMessages st' = chatMessages (updateChat now s st)"
  by (simp add: replaceSnapshot_def buildSessionEffect_def dispatchState_chat
                handleUiRequest_chat updateChat_def split: option.splits if_splits)

lemma show_nat_digit: "n < 10 \<Longrightarrow> show_nat n = [digit_char n]"
  by (simp add: show_nat.simps)

lemmas snapshot_defs =
  replaceSnapshot_def buildSessionEffect_def dispatchState_def handleUiRequest_def
  updateChat_def lastMessage_def appendLatest_def saveAgentConfig_def session_def
  initialView_def

text \<open>
  C3. Two consecutive snapshot replacements whose newest history entries carry the same
  message: the second leaves the transcript as the first left it. The first appends the
  message, as one agent entry at the end, when it is not empty and the transcript is
  empty or ends with another content, and leaves the transcript alone otherwise. So
  after both, a non-empty message is the content of the last entry of the transcript,
  appended at most once.
\<close>

theorem transcript_idempotent:
  assumes "lastMessage s2 = lastMessage s1"
    and "replaceSnapshot now1 r1 s1 st = Inr (st1, effs1)"
    and "replaceSnapshot now2 r2 s2 st1 = Inr (st2, effs2)"
  shows "chatMessages st2 = chatMessages st1 \<and>
         chatMessages st1 =
           (case lastMessage s1 of
              None \<Rightarrow> chatMessages st
            | Some m \<Rightarrow>
                if m = [] then chatMessages st
                else if chatMessages st = [] \<or> content (last (chatMessages st)) \<noteq> m
                then chatMessages st @ [\<lparr>msg_id = ''agent-'' @ show_nat now1, msg_type = Agent,
                                          content = m, timestamp = now1\<rparr>]
                else chatMessages st) \<and>
         (\<forall>m. lastMessage s1 = Some m \<and> m \<noteq> [] \<longrightarrow>
              chatMessages st2 \<noteq> [] \<and> content (last (chatMessages st2)) = m)"
proof -
  have c1: "chatMessages st1 = chatMessages (updateChat now1 s1 st)"
    using assms(2) by (rule replaceSnapshot_chat)
  have c2: "chatMessages st2 = chatMessages (updateChat now2 s2 st1)"
    using assms(3) by (rule replaceSnapshot_chat)
  have same: "chatMessages (updateChat now2 s2 st1) = chatMessages st1"
  proof (cases "lastMessage s1")
    case None
    then show ?thesis using assms(1) by (simp add: updateChat_def)
  next
    case (Some m)
    show ?thesis
    proof (cases "m = []")
      case True
      then show ?thesis using Some assms(1) by (simp add: updateChat_def)
    next
      case False
      then have "chatMessages st1 = appendLatest now1 m (chatMessages st)"
        using c1 Some by (simp add: updateChat_def)
      then show ?thesis
        using Some False assms(1) by (simp add: updateChat_def appendLatest_idem)
    qed
  qed
  have first: "chatMessages (updateChat now1 s1 st) =
           (case lastMessage s1 of
              None \<Rightarrow> chatMessages st
            | Some m \<Rightarrow>
                if m = [] then chatMessages st
                else if chatMessages st = [] \<or> content (last (chatMessages st)) \<noteq> m
                then chatMessages st @ [\<lparr>msg_id = ''agent-'' @ show_nat now1, msg_type = Agent,
                                          content = m, timestamp = now1\<rparr>]
                else chatMessages st)"
    by (cases "chatMessages st")
       (auto simp: updateChat_def appendLatest_def split: option.splits)
  have ends: "\<forall>m. lastMessage s1 = Some m \<and> m \<noteq> [] \<longrightarrow>
                chatMessages st1 \<noteq> [] \<and> content (last (chatMessages st1)) = m"
  proof (intro allI impI)
    fix m assume m: "lastMessage s1 = Some m \<and> m \<noteq> []"
    then have "chatMessages st1 = appendLatest now1 m (chatMessages st)"
      using c1 by (simp add: updateChat_def)
    then show "chatMessages st1 \<noteq> [] \<and> content (last (chatMessages st1)) = m"
      using appendLatest_last [of now1 m "chatMessages st"] by simp
  qed
  show ?thesis using c1 c2 same first ends by simp
qed

theorem transcript_idempotent_witness:
  "lastMessage (session ''CONFIGURATION_PROPOSED'' None (Some ''Which mailbox?''))
     = lastMessage (session ''WAITING_FOR_USER_INPUT'' None (Some ''Which mailbox?'')) \<and>
   replaceSnapshot 1 (Rejected [])
     (session ''WAITING_FOR_USER_INPUT'' None (Some ''Which mailbox?'')) initialView
     = Inr (greeted, []) \<and>
   replaceSnapshot 2 (Rejected [])
     (session ''CONFIGURATION_PROPOSED'' None (Some ''Which mailbox?'')) greeted
     = Inr (greeted\<lparr>buildSession :=
              Some (session ''CONFIGURATION_PROPOSED'' None (Some ''Which mailbox?''))\<rparr>, []) \<and>
   chatMessages (greeted\<lparr>buildSession :=
              Some (session ''CONFIGURATION_PROPOSED'' None (Some ''Which mailbox?''))\<rparr>)
     = chatMessages greeted \<and>
   content (last (chatMessages (greeted\<lparr>buildSession :=
              Some (session ''CONFIGURATION_PROPOSED'' None (Some ''Which mailbox?''))\<rparr>)))
     = ''Which mailbox?''"
proof -
  have h1: "lastMessage (session ''CONFIGURATION_PROPOSED'' None (Some ''Which mailbox?''))
     = lastMessage (session ''WAITING_FOR_USER_INPUT'' None (Some ''Which mailbox?''))"
    by (simp add: lastMessage_def session_def)
  have h2: "replaceSnapshot 1 (Rejected [])
     (session ''WAITING_FOR_USER_INPUT'' None (Some ''Which mailbox?'')) initialView
     = Inr (greeted, [])"
    by (simp add: snapshot_defs greeted_def show_nat_digit digit_char_def)
  have h3: "replaceSnapshot 2 (Rejected [])
     (session ''CONFIGURATION_PROPOSED'' None (Some ''Which mailbox?'')) greeted
     = Inr (greeted\<lparr>buildSession :=
              Some (session ''CONFIGURATION_PROPOSED'' None (Some ''Which mailbox?''))\<rparr>, [])"
    by (simp add: snapshot_defs greeted_def)
  have m: "lastMessage (session ''WAITING_FOR_USER_INPUT'' None (Some ''Which mailbox?''))
             = Some ''Which mailbox?''"
    by (simp add: lastMessage_def session_def)
  show ?thesis
    using transcript_idempotent [OF h1 h2 h3] h1 h2 h3 m by simp
qed

text \<open>
  C10 (as amended). On a snapshot replacement whose newest history entry carries a
  non-empty message, that message is appended as an agent message exactly when the
  transcript is empty or its last entry has another content, whatever the role of that
  entry; a missing or empty message is never appended.
\<close>

theorem append_iff_differs_from_last:
  assumes "replaceSnapshot now r s st = Inr (st', effs)"
  shows "chatMessages st' =
           (case lastMessage s of
              None \<Rightarrow> chatMessages st
            | Some m \<Rightarrow>
                if m = [] then chatMessages st
                else if chatMessages st = [] \<or> content (last (chatMessages st)) \<noteq> m
                then chatMessages st @ [\<lparr>msg_id = ''agent-'' @ show_nat now, msg_type = Agent,
                                          content = m, timestamp = now\<rparr>]
                else chatMessages st)"
proof -
  have "chatMessages st' = chatMessages (updateChat now s st)"
    using assms by (rule replaceSnapshot_chat)
  then show ?thesis
    by (cases "chatMessages st")
       (auto simp: updateChat_def appendLatest_def split: option.splits)
qed

theorem append_iff_differs_from_last_witness:
  "replaceSnapshot 2 (Rejected []) (session ''WAITING_FOR_USER_INPUT'' None (Some ''hi''))
     userSaidHi
     = Inr (userSaidHi\<lparr>buildSession :=
               Some (session ''WAITING_FOR_USER_INPUT'' None (Some ''hi'')),
             showThinking := False\<rparr>, []) \<and>
   chatMessages (userSaidHi\<lparr>buildSession :=
               Some (session ''WAITING_FOR_USER_INPUT'' None (Some ''hi'')),
             showThinking := False\<rparr>) = chatMessages userSaidHi"
proof -
  have h: "replaceSnapshot 2 (Rejected []) (session ''WAITING_FOR_USER_INPUT'' None (Some ''hi''))
     userSaidHi
     = Inr (userSaidHi\<lparr>buildSession :=
               Some (session ''WAITING_FOR_USER_INPUT'' None (Some ''hi'')),
             showThinking := False\<rparr>, [])"
    by (simp add: snapshot_defs userSaidHi_def)
  show ?thesis
    using append_iff_differs_from_last [OF h] h
    by (simp add: lastMessage_def session_def userSaidHi_def initialView_def)
qed

text \<open>
  The claim as written fails for an empty message: it differs from the content of the
  last transcript entry, and it is not appended.
\<close>

theorem empty_message_not_appended:
  "lastMessage (session ''WAITING_FOR_USER_INPUT'' None (Some [])) = Some [] \<and>
   content (last (chatMessages userSaidHi)) \<noteq> [] \<and>
   chatAfter (replaceSnapshot 2 (Rejected [])
                (session ''WAITING_FOR_USER_INPUT'' None (Some [])) userSaidHi)
     = Some (chatMessages userSaidHi)"
  by (simp add: chatAfter_def snapshot_defs userSaidHi_def)

section \<open>Properties of persistence\<close>

lemma replaceSnapshot_posts:
  assumes "replaceSnapshot now r s st = Inr (st', effs)"
  shows "length (filter isPostAgents effs) = (if finalizedWithConfig (now, r, s) then 1 else 0)"
  using assms
  by (auto simp: replaceSnapshot_def buildSessionEffect_def dispatchState_def
                 saveAgentConfig_def finalizedWithConfig_def
           split: if_splits option.splits fetch_result.splits sum.splits)

lemma replaceSnapshots_posts:
  "replaceSnapshots evs st = (None, st', effs) \<Longrightarrow>
   length (filter isPostAgents effs) = length (filter finalizedWithConfig evs)"
proof (induction evs arbitrary: st st' effs)
  case Nil
  then show ?case by simp
next
  case (Cons ev evs)
  obtain now r s where ev: "ev = (now, r, s)" by (cases ev) auto
  from Cons.prems ev obtain st1 effs1 where
    step: "replaceSnapshot now r s st = Inr (st1, effs1)"
    by (cases "replaceSnapshot now r s st") auto
  from Cons.prems ev step obtain effs2 where
    rest: "replaceSnapshots evs st1 = (None, st', effs2)" and effs: "effs = effs1 @ effs2"
    by (cases "replaceSnapshots evs st1") auto
  have "length (filter isPostAgents effs2) = length (filter finalizedWithConfig evs)"
    using Cons.IH rest by blast
  moreover have "length (filter isPostAgents effs1)
                   = (if finalizedWithConfig (now, r, s) then 1 else 0)"
    using step by (rule replaceSnapshot_posts)
  ultimately show ?case using ev effs by simp
qed

text \<open>
  C1 (as amended). Over any sequence of snapshot replacements that the component
  survives, the create-agent call is issued once for every snapshot whose state is
  CONFIGURATION_FINALIZED and whose configuration is present: as many calls as there are
  such snapshots.
\<close>

theorem one_save_per_finalized_snapshot:
  assumes "replaceSnapshots evs st = (None, st', effs)"
  shows "length (filter isPostAgents effs) = length (filter finalizedWithConfig evs)"
  using assms by (rule replaceSnapshots_posts)

lemma finalized_once:
  "replaceSnapshots
     [(1, Ok (Inr (Some 7)), session ''CONFIGURATION_FINALIZED'' (Some mailConfig) None)]
     initialView
   = (None,
      initialView\<lparr>
        buildSession := Some (session ''CONFIGURATION_FINALIZED'' (Some mailConfig) None),
        showThinking := False, agentConfig := Some mailConfig, showArchitecture := True,
        savedAgentId := Some 7\<rparr>,
      [PostAgents (agentData mailConfig), OnProgressUpdate 0])"
  by (simp add: snapshot_defs)

theorem one_save_per_finalized_snapshot_witness:
  "replaceSnapshots
     [(1, Ok (Inr (Some 7)), session ''CONFIGURATION_FINALIZED'' (Some mailConfig) None)]
     initialView
   = (None,
      initialView\<lparr>
        buildSession := Some (session ''CONFIGURATION_FINALIZED'' (Some mailConfig) None),
        showThinking := False, agentConfig := Some mailConfig, showArchitecture := True,
        savedAgentId := Some 7\<rparr>,
      [PostAgents (agentData mailConfig), OnProgressUpdate 0]) \<and>
   length (filter isPostAgents [PostAgents (agentData mailConfig), OnProgressUpdate 0])
   = length (filter finalizedWithConfig
       [(1, Ok (Inr (Some 7)), session ''CONFIGURATION_FINALIZED'' (Some mailConfig) None)])"
  using one_save_per_finalized_snapshot [OF finalized_once] finalized_once by simp

text \<open>
  The claim as written fails: two snapshots that both carry CONFIGURATION_FINALIZED
  issue two create-agent calls.
\<close>

theorem finalized_twice_saves_twice:
  "filter isPostAgents
     (snd (snd (replaceSnapshots
        [(1, Ok (Inr (Some 7)), session ''CONFIGURATION_FINALIZED'' (Some mailConfig) None),
         (2, Ok (Inr (Some 8)), session ''CONFIGURATION_FINALIZED'' (Some mailConfig) None)]
        initialView)))
   = [PostAgents (agentData mailConfig), PostAgents (agentData mailConfig)]"
  by (simp add: snapshot_defs)

section \<open>The credential gate\<close>

text \<open>
  C5. A first snapshot that is CONFIGURATION_FINALIZED with
  \<open>prerequisites.database_credentials = true\<close> issues the create-agent call at once, with
  no continue call before it: the effect saves whatever the prerequisites say.
\<close>

theorem finalized_snapshot_saves_despite_credentials:
  "database_credentials (prerequisites dbConfig) = Some True \<and>
   effectsOf (replaceSnapshot 1 (Ok (Inr (Some 7)))
                (session ''CONFIGURATION_FINALIZED'' (Some dbConfig) None) initialView)
     = [PostAgents (agentData dbConfig), OnProgressUpdate 0]"
  by (simp add: effectsOf_def snapshot_defs dbConfig_def noPrerequisites_def)

text \<open>The part of the gate that holds: a DB_CONNECTION_FAILED snapshot opens the modal
  and saves nothing.\<close>

lemma connection_failed_reopens_modal:
  assumes "state s = ''DB_CONNECTION_FAILED''"
  shows "\<exists>st'. replaceSnapshot now r s st
                  = Inr (st', [Alert ''Database connection failed. Please check your credentials and try again.''])
               \<and> showConnectionModal st'"
  using assms
  by (simp add: replaceSnapshot_def buildSessionEffect_def dispatchState_def)

section \<open>Properties of the session transport\<close>

text \<open>
  C9. When a create, continue or upload call fails, the stored snapshot is the one that
  was stored before the call.
\<close>

theorem transport_failure_keeps_snapshot:
  assumes "transportFailure response"
  shows "buildSession (fst (startBuild response props st)) = buildSession st \<and>
         buildSession (fst (handleSendMessage now response st)) = buildSession st \<and>
         buildSession (fst (handleConnectionSubmit response st)) = buildSession st \<and>
         buildSession (fst (onUpload response st)) = buildSession st"
proof -
  have a: "buildSession (fst (startBuild response props st)) = buildSession st"
    using assms
    by (cases response rule: transportFailure.cases) (simp_all add: startBuild_def)
  have b: "buildSession (fst (handleSendMessage now response st)) = buildSession st"
    using assms
    by (cases response rule: transportFailure.cases)
       (simp_all add: handleSendMessage_def Let_def split: option.splits)
  have c: "buildSession (fst (handleConnectionSubmit response st)) = buildSession st"
    using assms
    by (cases response rule: transportFailure.cases)
       (simp_all add: handleConnectionSubmit_def Let_def split: option.splits sum.splits)
  have d: "buildSession (fst (onUpload response st)) = buildSession st"
    using assms
    by (cases response rule: transportFailure.cases)
       (simp_all add: onUpload_def split: option.splits)
  show ?thesis using a b c d by simp
qed

theorem transport_failure_keeps_snapshot_witness:
  "transportFailure (NotOk (Inr (Some ''bad credentials'')) :: BuildSession fetch_result) \<and>
   buildSession (fst (startBuild (NotOk (Inr (Some ''bad credentials'')))
      \<lparr>userPrompt = ''Sort my mail'', isBuilding = False, buildProgress = 0,
        isAgentReady = False, templateMatch = False\<rparr> greeted)) = buildSession greeted \<and>
   buildSession (fst (handleSendMessage 5 (NotOk (Inr (Some ''bad credentials''))) greeted))
     = buildSession greeted \<and>
   buildSession (fst (handleConnectionSubmit (NotOk (Inr (Some ''bad credentials''))) greeted))
     = buildSession greeted \<and>
   buildSession (fst (onUpload (NotOk (Inr (Some ''bad credentials''))) greeted))
     = buildSession greeted"
proof -
  have h: "transportFailure (NotOk (Inr (Some ''bad credentials'')) :: BuildSession fetch_result)"
    by simp
  show ?thesis
    using transport_failure_keeps_snapshot [OF h] h by simp
qed

section \<open>Properties of the architecture graph and of the approval\<close>



lemma approvedOnce_nodes:
  "map node_id (nodes approvedOnce) = [''openai'', ''google'', ''jira'', ''memory'']"
  by (simp add: approvedOnce_def handleProjectApproval_def canApprove_def planShown_def
                initialView_def quietProps_def mailConfig_def noPrerequisites_def
                connectNodes_def generateGenericArchitecture_def node_def Let_def)



text \<open>
  The edge list depends on the state as well: the handler builds it from the node list
  of the render in which it was created. An approval made when the graph is still empty
  leaves no edges; the same approval made again leaves the six edges of the four nodes.
\<close>

lemma regenerated_edges_differ:
  "oauth (prerequisites mailConfig) = Some [''google'', ''jira''] \<and>
   nodes approvedTwice = nodes approvedOnce \<and>
   edges approvedOnce = [] \<and>
   map edge_id (edges approvedTwice) =
     [''google-openai'', ''jira-openai'', ''memory-openai'',
      ''openai-memory'', ''google-memory'', ''jira-memory'']"
proof -
  have once: "edges approvedOnce = []"
    by (simp add: approvedOnce_def handleProjectApproval_def canApprove_def planShown_def
                  initialView_def quietProps_def mailConfig_def noPrerequisites_def
                  connectNodes_def newEdges_def Let_def)
  have can: "canApprove (approvedOnce\<lparr>showProjectPlan := True\<rparr>)"
    by (simp add: approvedOnce_def handleProjectApproval_def canApprove_def planShown_def
                  initialView_def quietProps_def mailConfig_def noPrerequisites_def
                  connectNodes_def Let_def)
  have twice_nodes: "nodes approvedTwice =
      map (\<lambda>n. n\<lparr>node_data := (node_data n)\<lparr>isLoading := False\<rparr>\<rparr>)
          (generateGenericArchitecture [''google'', ''jira''])"
    using can
    by (simp add: approvedTwice_def handleProjectApproval_def quietProps_def mailConfig_def
                  noPrerequisites_def connectNodes_def Let_def)
  have once_nodes: "nodes approvedOnce =
      map (\<lambda>n. n\<lparr>node_data := (node_data n)\<lparr>isLoading := False\<rparr>\<rparr>)
          (generateGenericArchitecture [''google'', ''jira''])"
    by (simp add: approvedOnce_def handleProjectApproval_def canApprove_def planShown_def
                  initialView_def quietProps_def mailConfig_def noPrerequisites_def
                  connectNodes_def Let_def)
  have twice_edges: "edges approvedTwice = newEdges (map node_id (nodes approvedOnce))"
    using can
    by (simp add: approvedTwice_def handleProjectApproval_def quietProps_def mailConfig_def
                  noPrerequisites_def connectNodes_def Let_def)
  have ids: "map edge_id (newEdges [''openai'', ''google'', ''jira'', ''memory'']) =
     [''google-openai'', ''jira-openai'', ''memory-openai'',
      ''openai-memory'', ''google-memory'', ''jira-memory'']"
    by (simp add: newEdges_def edgeTo_def)
  show ?thesis
    using once twice_nodes once_nodes twice_edges ids approvedOnce_nodes
    by (simp add: mailConfig_def noPrerequisites_def)
qed

text \<open>The gate of the approval path: a configuration that needs database credentials
  opens the modal and is not saved.\<close>

lemma approval_gate:
  assumes "canApprove st" and "database_credentials (prerequisites config) = Some True"
  shows "snd (handleProjectApproval now (Ok (Inr config)) saveResponse props st)
           = [PostArchitect (userPrompt props)] \<and>
         showConnectionModal (fst (handleProjectApproval now (Ok (Inr config)) saveResponse props st))"
  using assms by (simp add: handleProjectApproval_def Let_def)

section \<open>Properties of the clarification sequencer\<close>




lemma handleClarificationAnswer_silent:
  "snd (handleClarificationAnswer now a props st) = []"
  by (simp add: handleClarificationAnswer_def Let_def)

lemma answerAll_silent: "snd (answerAll answers props st) = []"
proof (induction answers arbitrary: st)
  case Nil
  then show ?case by simp
next
  case (Cons x rest)
  obtain now a where x: "x = (now, a)" by (cases x) auto
  obtain st' effs where h: "handleClarificationAnswer now a props st = (st', effs)"
    by (cases "handleClarificationAnswer now a props st") auto
  have "effs = []" using handleClarificationAnswer_silent [of now a props st] h by simp
  then show ?case
    using x h Cons.IH [of st'] by (cases "answerAll rest props st'") auto
qed





section \<open>Properties of the completion announcement\<close>

lemma mailMessage_unguarded: "\<not> includes_str mailMessage ''Agent built successfully''"
  by (simp add: mailMessage_def)

lemma mailMessage_generated:
  "oauth (prerequisites cfg) = Some [''google'', ''jira''] \<Longrightarrow>
   generateAgentSuccessMessage (st\<lparr>agentConfig := Some cfg\<rparr>) = mailMessage"
  by (simp add: generateAgentSuccessMessage_def mailMessage_def Let_def)

text \<open>
  C4. The agent becomes ready with the configuration in place, and the effect fires;
  then a COMPLETED snapshot stores the configuration again, with its id, and the effect
  fires a second time. The transcript holds the completion message twice: the message
  does not contain the text that the guard looks for.
\<close>

theorem completion_message_appended_twice:
  "map content
     (chatMessages
        (completionEffect 2 readyProps
           ((completionEffect 1 readyProps (initialView\<lparr>agentConfig := Some mailConfig\<rparr>))
              \<lparr>agentConfig := Some (mailConfig\<lparr>config_id := Some 7\<rparr>)\<rparr>)))
   = [mailMessage, mailMessage] \<and>
   \<not> includes_str mailMessage ''Agent built successfully''"
proof -
  have g1: "generateAgentSuccessMessage (initialView\<lparr>agentConfig := Some mailConfig\<rparr>)
              = mailMessage"
    by (rule mailMessage_generated) (simp add: mailConfig_def noPrerequisites_def)
  have s1: "chatMessages (completionEffect 1 readyProps
                            (initialView\<lparr>agentConfig := Some mailConfig\<rparr>))
              = [\<lparr>msg_id = show_nat 1, msg_type = Agent, content = mailMessage,
                  timestamp = 1\<rparr>]"
    using g1 by (simp add: completionEffect_def readyProps_def initialView_def)
  have g2: "generateAgentSuccessMessage
              ((completionEffect 1 readyProps (initialView\<lparr>agentConfig := Some mailConfig\<rparr>))
                 \<lparr>agentConfig := Some (mailConfig\<lparr>config_id := Some 7\<rparr>)\<rparr>) = mailMessage"
    by (rule mailMessage_generated) (simp add: mailConfig_def noPrerequisites_def)
  have "chatMessages
        (completionEffect 2 readyProps
           ((completionEffect 1 readyProps (initialView\<lparr>agentConfig := Some mailConfig\<rparr>))
              \<lparr>agentConfig := Some (mailConfig\<lparr>config_id := Some 7\<rparr>)\<rparr>))
       = [\<lparr>msg_id = show_nat 1, msg_type = Agent, content = mailMessage, timestamp = 1\<rparr>,
          \<lparr>msg_id = show_nat 2, msg_type = Agent, content = mailMessage, timestamp = 2\<rparr>]"
    using s1 g2 mailMessage_unguarded
    by (simp add: completionEffect_def [of 2] readyProps_def)
  then show ?thesis using mailMessage_unguarded by simp
qed

section \<open>Properties of the progress timer\<close>

lemma progressIncrement_2: "progressIncrement = 2"
  by (simp add: progressIncrement_def buildSteps_def)

lemma timerInv_cases:
  "timerInv st \<longleftrightarrow>
     intervals st = [] \<or> (\<exists>i captured. intervals st = [(i, captured)] \<and> progressCleanup st = Some i)"
  by (auto simp: timerInv_def split: list.splits)

lemma rerun_intervals:
  assumes "timerInv st"
  shows "intervals (rerunProgressEffect props st)
           = (if isBuilding props then [(nextInterval st, buildProgress props)] else [])"
    and "timerInv (rerunProgressEffect props st)"
  using assms
  by (auto simp: timerInv_cases rerunProgressEffect_def progressEffect_def
                 runProgressCleanup_def clearInterval_def split: option.splits)

lemma cleanup_inv: "timerInv st \<Longrightarrow> timerInv (runProgressCleanup st)"
  by (auto simp: timerInv_cases runProgressCleanup_def clearInterval_def split: option.splits)

lemma tick_inv: "timerInv st \<Longrightarrow> timerInv (fst (intervalTick i st))"
  by (auto simp: timerInv_cases intervalTick_def clearInterval_def Let_def
           split: option.splits if_splits)

lemma dispatchState_timers:
  "dispatchState r s st = Inr (st', effs) \<Longrightarrow>
   intervals st' = intervals st \<and> progressCleanup st' = progressCleanup st"
  by (auto simp: dispatchState_def saveAgentConfig_def
           split: if_splits option.splits fetch_result.splits sum.splits prod.splits)

lemma replaceSnapshot_timers:
  "replaceSnapshot now r s st = Inr (st', effs) \<Longrightarrow>
   intervals st' = intervals st \<and> progressCleanup st' = progressCleanup st"
  by (auto simp: replaceSnapshot_def buildSessionEffect_def handleUiRequest_def updateChat_def
           dest!: dispatchState_timers split: option.splits if_splits)

lemma step_inv: "timerInv st \<Longrightarrow> timerInv (progressStep ev st)"
proof (cases ev)
  case (Rerun props)
  assume "timerInv st"
  then show ?thesis using Rerun rerun_intervals(2) by simp
next
  case (Tick i)
  assume "timerInv st"
  then show ?thesis using Tick tick_inv by simp
next
  case (Replace now r s)
  assume inv: "timerInv st"
  show ?thesis
  proof (cases "replaceSnapshot now r s st")
    case (Inl e)
    then show ?thesis using Replace inv cleanup_inv by simp
  next
    case (Inr res)
    obtain st' effs where res: "res = (st', effs)" by (cases res) auto
    have "intervals st' = intervals st \<and> progressCleanup st' = progressCleanup st"
      using Inr res replaceSnapshot_timers by blast
    then have "timerInv st'" using inv by (simp add: timerInv_cases)
    then show ?thesis using Replace Inr res by simp
  qed
next
  case Unmount
  assume "timerInv st"
  then show ?thesis using Unmount cleanup_inv by simp
qed

lemma run_inv: "timerInv st \<Longrightarrow> timerInv (progressRun evs st)"
  by (induction evs arbitrary: st) (simp_all add: step_inv)

lemma failed_snapshot:
  assumes "state s = ''FAILED''"
  shows "replaceSnapshot now r s st
           = Inr ((handleUiRequest s (updateChat now s (st\<lparr>buildSession := Some s\<rparr>)))
                    \<lparr>showThinking := False\<rparr>, [])"
  using assms by (simp add: replaceSnapshot_def buildSessionEffect_def dispatchState_def)

text \<open>
  C6 (as amended). From a state in which the only interval running, if any, is the one
  that the effect's cleanup will clear, whatever happens next (the effect running again,
  ticks, snapshot replacements, unmount), at most one interval runs, and when the effect
  runs again the running interval is cleared before the new one is started. A snapshot
  in the state FAILED does not stop the timer: it leaves the running intervals as they
  are and calls nothing.
\<close>

theorem timer_single_and_untouched_by_failed:
  assumes "timerInv st" and "state s = ''FAILED''"
  shows "length (intervals (progressRun evs st)) \<le> 1 \<and>
         intervals (rerunProgressEffect props (progressRun evs st))
           = (if isBuilding props
              then [(nextInterval (progressRun evs st), buildProgress props)] else []) \<and>
         intervalsAfter (replaceSnapshot now r s st) = Some (intervals st) \<and>
         effectsOf (replaceSnapshot now r s st) = []"
proof -
  have inv: "timerInv (progressRun evs st)" using assms(1) by (rule run_inv)
  then have one: "length (intervals (progressRun evs st)) \<le> 1"
    by (auto simp: timerInv_cases)
  have re: "intervals (rerunProgressEffect props (progressRun evs st))
           = (if isBuilding props
              then [(nextInterval (progressRun evs st), buildProgress props)] else [])"
    using inv by (rule rerun_intervals(1))
  have f: "replaceSnapshot now r s st
           = Inr ((handleUiRequest s (updateChat now s (st\<lparr>buildSession := Some s\<rparr>)))
                    \<lparr>showThinking := False\<rparr>, [])"
    using assms(2) by (rule failed_snapshot)
  have t: "intervalsAfter (replaceSnapshot now r s st) = Some (intervals st)"
    using replaceSnapshot_timers [OF f] f by (simp add: intervalsAfter_def)
  have e: "effectsOf (replaceSnapshot now r s st) = []"
    using f by (simp add: effectsOf_def)
  show ?thesis using one re t e by simp
qed

theorem timer_single_and_untouched_by_failed_witness:
  "timerInv (rerunProgressEffect buildingProps initialView) \<and>
   state (session ''FAILED'' None None) = ''FAILED'' \<and>
   length (intervals (progressRun [Rerun buildingProps, Tick 1, Rerun buildingProps]
                        (rerunProgressEffect buildingProps initialView))) \<le> 1 \<and>
   intervalsAfter (replaceSnapshot 3 (Rejected []) (session ''FAILED'' None None)
                     (rerunProgressEffect buildingProps initialView))
     = Some (intervals (rerunProgressEffect buildingProps initialView))"
proof -
  have h1: "timerInv (rerunProgressEffect buildingProps initialView)"
    by (simp add: timerInv_def rerunProgressEffect_def progressEffect_def
                  runProgressCleanup_def buildingProps_def initialView_def)
  have h2: "state (session ''FAILED'' None None) = ''FAILED''"
    by (simp add: session_def)
  show ?thesis
    using timer_single_and_untouched_by_failed
            [where evs = "[Rerun buildingProps, Tick 1, Rerun buildingProps]"
               and now = 3 and r = "Rejected []", OF h1 h2] h1 h2
    by blast
qed

text \<open>
  The claim as written fails: with the timer running, a FAILED snapshot leaves the
  interval running, calls nothing, and the next tick reports progress.
\<close>

theorem failed_snapshot_leaves_timer_running:
  "intervals (rerunProgressEffect buildingProps initialView) = [(0, 0)] \<and>
   intervalsAfter (replaceSnapshot 3 (Rejected []) (session ''FAILED'' None None)
                     (rerunProgressEffect buildingProps initialView)) = Some [(0, 0)] \<and>
   effectsOf (replaceSnapshot 3 (Rejected []) (session ''FAILED'' None None)
                (rerunProgressEffect buildingProps initialView)) = [] \<and>
   snd (intervalTick 0
          ((rerunProgressEffect buildingProps initialView)
             \<lparr>buildSession := Some (session ''FAILED'' None None), showThinking := False\<rparr>))
     = [OnProgressUpdate 2]"
  by (simp add: intervalsAfter_def effectsOf_def snapshot_defs rerunProgressEffect_def
                progressEffect_def runProgressCleanup_def buildingProps_def intervalTick_def
                progressIncrement_2 Let_def)

section \<open>Properties of a tick, and of the component with its parent\<close>







end
